theory Spec2Isabelle
  imports Main
begin

section \<open>The tables of src/database.py\<close>

text \<open>
  The three SQLAlchemy models become records and a table becomes the list of its rows in
  rowid (insertion) order. Field names are the column names; where two models share a
  column name the task's and the message's carry a prefix (\<open>task_user_id\<close>,
  \<open>msg_session_id\<close>), and \<open>Message.id\<close> is \<open>msg_id\<close>. A nullable column is an
  \<open>option\<close>. A \<open>DateTime\<close> value is a clock reading, an integer count of microseconds.
\<close>

type_synonym datetime = int

record ConversationSession =
  session_id :: string
  user_id :: string
  channel_id :: "string option"
  thread_ts :: "string option"
  created_at :: datetime
  updated_at :: datetime
  is_active :: bool

record Message =
  msg_id :: nat
  msg_session_id :: string
  role :: string
  content :: string
  timestamp :: datetime
  msg_metadata :: "string option"

record ScheduledTask =
  task_id :: string
  task_user_id :: string
  task_channel_id :: string
  task_type :: string
  message :: string
  schedule_time :: "datetime option"
  cron_expression :: "string option"
  is_recurring :: bool
  task_is_active :: bool
  task_created_at :: datetime
  last_run :: "datetime option"

text \<open>
  The state of the module: whether \<open>initialize_database\<close> has run (\<open>SessionLocal\<close> is not
  \<open>None\<close>) and the rows of the three tables.
\<close>

record database =
  initialized :: bool
  conversation_sessions :: "ConversationSession list"
  messages :: "Message list"
  scheduled_tasks :: "ScheduledTask list"

text \<open>
  Exceptions as values. \<open>RuntimeError\<close> is raised by \<open>get_db_session\<close> before
  initialisation; \<open>IntegrityError\<close> is what the INSERT of a row raises when its primary
  key is already in the table; \<open>StorageError\<close> stands for any other exception of the
  SQLAlchemy session and \<open>ActionError\<close> for any exception of
  \<open>slack_client.chat_postMessage\<close>; \<open>OverflowError\<close> is what binding a Python integer
  outside the signed 64-bit range to a query parameter raises. No statement of the source
  raises \<open>NotFoundError\<close>; the constructor is there so that the absence can be stated.
\<close>

datatype error =
  RuntimeError | IntegrityError | StorageError | ActionError | OverflowError | NotFoundError

section \<open>Sessions\<close>

text \<open>Python truth of an \<open>Optional[str]\<close>: \<open>None\<close> and the empty string are false.\<close>

definition truthy :: "string option \<Rightarrow> bool" where
  "truthy v = (case v of None \<Rightarrow> False | Some s \<Rightarrow> s \<noteq> [])"

text \<open>
  The filters of the lookup query (lines 193-201): user and activity always, channel and
  thread only under \<open>if channel_id:\<close> and \<open>if thread_ts:\<close>.
\<close>

definition session_matches ::
  "string \<Rightarrow> string option \<Rightarrow> string option \<Rightarrow> ConversationSession \<Rightarrow> bool" where
  "session_matches user channel thread s =
     (user_id s = user \<and> is_active s
      \<and> (if truthy channel then channel_id s = channel else True)
      \<and> (if truthy thread then thread_ts s = thread else True))"

text \<open>
  Line 213: \<open>f"session_{user_id}_{datetime.utcnow().timestamp()}"\<close>. The argument \<open>stamp\<close>
  is the text the f-string renders for the clock's timestamp.
\<close>

definition new_session_id :: "string \<Rightarrow> string \<Rightarrow> string" where
  "new_session_id user stamp = ''session_'' @ user @ ''_'' @ stamp"

text \<open>
  The ORM writes a changed object back with \<open>UPDATE ... WHERE session_id = ?\<close>: the rows
  carrying that primary key are rewritten, every other row is left as it is.
\<close>

definition update_session ::
  "string \<Rightarrow> (ConversationSession \<Rightarrow> ConversationSession)
     \<Rightarrow> ConversationSession list \<Rightarrow> ConversationSession list" where
  "update_session sid f rows = map (\<lambda>s. if session_id s = sid then f s else s) rows"

text \<open>
  \<open>get_or_create_session\<close> (lines 171-224). \<open>query.first()\<close> is the first matching row in
  table order. \<open>now\<close> is the reading of \<open>datetime.utcnow()\<close> stored in \<open>updated_at\<close> (line
  207) or taken by the column defaults of a new row; \<open>stamp\<close> is the timestamp text of
  line 213. The INSERT of a session id that is already a primary key of the table raises
  and nothing is stored.
\<close>

definition get_or_create_session ::
  "database \<Rightarrow> string \<Rightarrow> string option \<Rightarrow> string option \<Rightarrow> string \<Rightarrow> datetime
     \<Rightarrow> error + (string \<times> database)" where
  "get_or_create_session db user channel thread stamp now =
     (if \<not> initialized db then Inl RuntimeError
      else case find (session_matches user channel thread) (conversation_sessions db) of
        Some session \<Rightarrow>
          Inr (session_id session,
               db\<lparr>conversation_sessions :=
                    update_session (session_id session) (\<lambda>s. s\<lparr>updated_at := now\<rparr>)
                      (conversation_sessions db)\<rparr>)
      | None \<Rightarrow>
          (let sid = new_session_id user stamp in
           if sid \<in> set (map session_id (conversation_sessions db)) then Inl IntegrityError
           else Inr (sid,
                  db\<lparr>conversation_sessions := conversation_sessions db @
                       [\<lparr>session_id = sid, user_id = user, channel_id = channel,
                         thread_ts = thread, created_at = now, updated_at = now,
                         is_active = True\<rparr>]\<rparr>)))"

text \<open>
  \<open>clear_session\<close> (lines 286-305). Under \<open>if session:\<close> the flag is set and committed;
  an unknown id falls through. The UPDATE that stores a changed flag also refreshes
  \<open>updated_at\<close>, whose column is declared \<open>onupdate=datetime.utcnow\<close> (line 52); a flag
  that was already false is no change and writes nothing.
\<close>

definition clear_session :: "database \<Rightarrow> string \<Rightarrow> datetime \<Rightarrow> error + database" where
  "clear_session db sid now =
     (if \<not> initialized db then Inl RuntimeError
      else case find (\<lambda>s. session_id s = sid) (conversation_sessions db) of
        None \<Rightarrow> Inr db
      | Some session \<Rightarrow>
          if is_active session
          then Inr (db\<lparr>conversation_sessions :=
                      update_session sid (\<lambda>s. s\<lparr>is_active := False, updated_at := now\<rparr>)
                        (conversation_sessions db)\<rparr>)
          else Inr db)"

text \<open>
  The primary-key constraint of \<open>conversation_sessions\<close>: no two rows carry the same
  \<open>session_id\<close>.
\<close>

definition session_ids_unique :: "database \<Rightarrow> bool" where
  "session_ids_unique db = distinct (map session_id (conversation_sessions db))"

section \<open>Message history\<close>

text \<open>
  The limit is bound as an SQLite INTEGER, a signed 64-bit value; a Python integer outside
  that range cannot be bound.
\<close>

definition sqlite_integer :: "int \<Rightarrow> bool" where
  "sqlite_integer n = (- 9223372036854775808 \<le> n \<and> n \<le> 9223372036854775807)"

text \<open>
  SQLite's \<open>LIMIT n\<close>: the first \<open>n\<close> rows of the ordered result; a negative \<open>n\<close> is no
  bound.
\<close>

definition sql_limit :: "int \<Rightarrow> 'a list \<Rightarrow> 'a list" where
  "sql_limit n rows = (if n < 0 then rows else take (nat n) rows)"

text \<open>
  The query of \<open>get_session_history\<close> (lines 268-274): filter on the session id, order by
  timestamp ascending, limit. Rows of equal timestamp keep their table order.
\<close>

definition history_rows :: "database \<Rightarrow> string \<Rightarrow> Message list" where
  "history_rows db sid =
     sort_key timestamp (filter (\<lambda>m. msg_session_id m = sid) (messages db))"

text \<open>
  \<open>get_session_history\<close> (lines 255-283). An entry of the returned list is the triple
  (role, content, timestamp) of the dict the source builds; the timestamp is kept as the
  clock reading that \<open>isoformat()\<close> prints. Executing the query with a limit that is no
  SQLite INTEGER raises.
\<close>

definition get_session_history ::
  "database \<Rightarrow> string \<Rightarrow> int \<Rightarrow> error + (string \<times> string \<times> datetime) list" where
  "get_session_history db sid limit =
     (if \<not> initialized db then Inl RuntimeError
      else if \<not> sqlite_integer limit then Inl OverflowError
      else Inr (map (\<lambda>m. (role m, content m, timestamp m))
                  (sql_limit limit (history_rows db sid))))"

section \<open>Firing a scheduled task (src/scheduler/tasks.py)\<close>

text \<open>
  What one call of \<open>execute_scheduled_task\<close> meets outside the tables: the global
  \<open>slack_client\<close> (\<open>None\<close> when never set, else what \<open>chat_postMessage\<close> does when
  awaited: it returns, it returns a response reporting failure, or it raises), an
  exception of the SELECT or of the commit if the session raises one, and the reading of
  \<open>datetime.utcnow()\<close> at line 71. Only exceptions that \<open>except Exception\<close> catches are
  modelled; cancellation of the coroutine is not.
\<close>

datatype delivery = Delivered | Reported_failure | Raised error

record firing =
  slack_client :: "delivery option"
  query_fault :: "error option"
  commit_fault :: "error option"
  utcnow :: datetime

datatype event =
    Log_warning string
  | Posted string string bool
  | Log_error string error

text \<open>Line 66: the text posted, the alarm-clock sign (three bytes of UTF-8) first.\<close>

definition reminder_text :: "ScheduledTask \<Rightarrow> string" where
  "reminder_text task = [CHR 0xE2, CHR 0x8F, CHR 0xB0] @ '' Reminder: '' @ message task"

text \<open>
  Lines 63-68. The returned response is not inspected, so a reported failure continues
  like a success; an exception leaves the block.
\<close>

definition send_message :: "firing \<Rightarrow> ScheduledTask \<Rightarrow> error + event list" where
  "send_message env task =
     (case slack_client env of
        None \<Rightarrow> Inr []
      | Some Delivered \<Rightarrow> Inr [Posted (task_channel_id task) (reminder_text task) True]
      | Some Reported_failure \<Rightarrow>
          Inr [Posted (task_channel_id task) (reminder_text task) False]
      | Some (Raised e) \<Rightarrow> Inl e)"

text \<open>Lines 70-75: the changes made to the task object before the commit.\<close>

definition mark_run :: "datetime \<Rightarrow> ScheduledTask \<Rightarrow> ScheduledTask" where
  "mark_run now task =
     (let t = task\<lparr>last_run := Some now\<rparr>
      in if \<not> is_recurring t then t\<lparr>task_is_active := False\<rparr> else t)"

definition update_task ::
  "string \<Rightarrow> (ScheduledTask \<Rightarrow> ScheduledTask) \<Rightarrow> ScheduledTask list \<Rightarrow> ScheduledTask list" where
  "update_task tid f rows = map (\<lambda>t. if task_id t = tid then f t else t) rows"

text \<open>The lookup of lines 54-56, \<open>filter(task_id == ...).first()\<close>.\<close>

definition get_task :: "database \<Rightarrow> string \<Rightarrow> ScheduledTask option" where
  "get_task db tid = find (\<lambda>t. task_id t = tid) (scheduled_tasks db)"

text \<open>
  The statements inside \<open>try\<close> (lines 53-77). \<open>Inl\<close> is an exception leaving the block,
  with the events that happened before it; the changes to the task reach the table only
  through the commit of line 77.
\<close>

definition execute_body ::
  "firing \<Rightarrow> database \<Rightarrow> string \<Rightarrow> (error \<times> event list) + (database \<times> event list)" where
  "execute_body env db tid =
     (if \<not> initialized db then Inl (RuntimeError, [])
      else case query_fault env of
        Some e \<Rightarrow> Inl (e, [])
      | None \<Rightarrow>
         (case get_task db tid of
            None \<Rightarrow> Inr (db, [Log_warning tid])
          | Some task \<Rightarrow>
              if \<not> task_is_active task then Inr (db, [Log_warning tid])
              else (case send_message env task of
                      Inl e \<Rightarrow> Inl (e, [])
                    | Inr posted \<Rightarrow>
                       (case commit_fault env of
                          Some e \<Rightarrow> Inl (e, posted)
                        | None \<Rightarrow>
                            Inr (db\<lparr>scheduled_tasks :=
                                      update_task tid (mark_run (utcnow env))
                                        (scheduled_tasks db)\<rparr>,
                                 posted)))))"

text \<open>
  \<open>execute_scheduled_task\<close> (lines 43-80): the block under \<open>try\<close> and the handler
  \<open>except Exception\<close>, which logs the error after whatever happened before it and
  returns. \<open>Inl\<close> would be an exception reaching the caller.
\<close>

definition execute_scheduled_task ::
  "firing \<Rightarrow> database \<Rightarrow> string \<Rightarrow> error + (database \<times> event list)" where
  "execute_scheduled_task env db tid =
     (case execute_body env db tid of
        Inl (e, evs) \<Rightarrow> Inr (db, evs @ [Log_error tid e])
      | Inr r \<Rightarrow> Inr r)"

text \<open>A firing in which neither the session nor the callback raises.\<close>

definition raises_nothing :: "firing \<Rightarrow> bool" where
  "raises_nothing env =
     (query_fault env = None \<and> commit_fault env = None
      \<and> (case slack_client env of Some (Raised e) \<Rightarrow> False | _ \<Rightarrow> True))"

section \<open>Example data\<close>

text \<open>
  A one-time reminder and a recurring message, both active and never run, and a firing
  in which the store raises nothing.
\<close>

definition reminder_T1 :: ScheduledTask where
  "reminder_T1 =
     \<lparr>task_id = ''T1'', task_user_id = ''U1'', task_channel_id = ''C1'',
      task_type = ''reminder'', message = ''ping'', schedule_time = Some 100,
      cron_expression = None, is_recurring = False, task_is_active = True,
      task_created_at = 50, last_run = None\<rparr>"

definition recurring_T2 :: ScheduledTask where
  "recurring_T2 =
     \<lparr>task_id = ''T2'', task_user_id = ''U1'', task_channel_id = ''C1'',
      task_type = ''message'', message = ''standup'', schedule_time = None,
      cron_expression = Some ''* * * * *'', is_recurring = True, task_is_active = True,
      task_created_at = 50, last_run = None\<rparr>"

definition task_db :: database where
  "task_db = \<lparr>initialized = True, conversation_sessions = [], messages = [],
              scheduled_tasks = [reminder_T1, recurring_T2]\<rparr>"

definition firing_at :: "delivery option \<Rightarrow> datetime \<Rightarrow> firing" where
  "firing_at client now =
     \<lparr>slack_client = client, query_fault = None, commit_fault = None, utcnow = now\<rparr>"

text \<open>The task table after the recurring message has run at the reading \<open>t\<close>.\<close>

definition task_db_run :: "datetime \<Rightarrow> database" where
  "task_db_run t = \<lparr>initialized = True, conversation_sessions = [], messages = [],
                    scheduled_tasks = [reminder_T1, recurring_T2\<lparr>last_run := Some t\<rparr>]\<rparr>"

text \<open>A firing in which the message is delivered and the commit raises.\<close>

definition commit_fails_at :: "datetime \<Rightarrow> firing" where
  "commit_fails_at now =
     \<lparr>slack_client = Some Delivered, query_fault = None, commit_fault = Some StorageError,
      utcnow = now\<rparr>"

text \<open>
  A database with one active session of user U1 in channel C1, thread T9, holding three
  messages; the empty database; and the two states a first contact followed by a reset
  leads to from it.
\<close>

definition session_S1 :: ConversationSession where
  "session_S1 =
     \<lparr>session_id = ''session_U1_1.5'', user_id = ''U1'', channel_id = Some ''C1'',
      thread_ts = Some ''T9'', created_at = 1, updated_at = 1, is_active = True\<rparr>"

definition message_rows :: "Message list" where
  "message_rows =
     [\<lparr>msg_id = 1, msg_session_id = ''session_U1_1.5'', role = ''user'', content = ''first'',
       timestamp = 1, msg_metadata = None\<rparr>,
      \<lparr>msg_id = 2, msg_session_id = ''session_U1_1.5'', role = ''assistant'',
       content = ''second'', timestamp = 2, msg_metadata = None\<rparr>,
      \<lparr>msg_id = 3, msg_session_id = ''session_U1_1.5'', role = ''user'', content = ''third'',
       timestamp = 3, msg_metadata = None\<rparr>]"

definition chat_db :: database where
  "chat_db = \<lparr>initialized = True, conversation_sessions = [session_S1],
              messages = message_rows, scheduled_tasks = [reminder_T1]\<rparr>"

text \<open>The same database with one more message, stored under an id of no session.\<close>

definition orphan_db :: database where
  "orphan_db = chat_db\<lparr>messages := messages chat_db @
       [\<lparr>msg_id = 4, msg_session_id = ''session_U9_0.0'', role = ''user'',
         content = ''stray'', timestamp = 4, msg_metadata = None\<rparr>]\<rparr>"

text \<open>
  The same database with the closed session of another user, U7, stored before the
  session of U1.
\<close>

definition session_U7 :: ConversationSession where
  "session_U7 =
     \<lparr>session_id = ''session_U7_0.5'', user_id = ''U7'', channel_id = None,
      thread_ts = None, created_at = 0, updated_at = 0, is_active = False\<rparr>"

definition shared_db :: database where
  "shared_db = chat_db\<lparr>conversation_sessions := [session_U7, session_S1]\<rparr>"

definition fresh_db :: database where
  "fresh_db = \<lparr>initialized = True, conversation_sessions = [], messages = [],
               scheduled_tasks = []\<rparr>"

definition resolved_db :: database where
  "resolved_db = \<lparr>initialized = True,
       conversation_sessions =
         [\<lparr>session_id = ''session_U1_1.5'', user_id = ''U1'', channel_id = Some ''C1'',
           thread_ts = None, created_at = 10, updated_at = 10, is_active = True\<rparr>],
       messages = [], scheduled_tasks = []\<rparr>"

definition cleared_db :: database where
  "cleared_db = \<lparr>initialized = True,
       conversation_sessions =
         [\<lparr>session_id = ''session_U1_1.5'', user_id = ''U1'', channel_id = Some ''C1'',
           thread_ts = None, created_at = 10, updated_at = 11, is_active = False\<rparr>],
       messages = [], scheduled_tasks = []\<rparr>"

section \<open>Lookup and update of rows\<close>

lemma task_id_mark_run: "task_id (mark_run now t) = task_id t"
  by (simp add: mark_run_def Let_def)

lemma find_update_task:
  assumes "\<And>t. task_id (f t) = task_id t"
  shows "find (\<lambda>t. task_id t = k) (update_task tid f rows) =
     (if k = tid then map_option f (find (\<lambda>t. task_id t = k) rows)
      else find (\<lambda>t. task_id t = k) rows)"
  using assms by (induction rows) (auto simp: update_task_def)

lemma get_task_update:
  "get_task (db\<lparr>scheduled_tasks := update_task tid (mark_run now) (scheduled_tasks db)\<rparr>) k =
     (if k = tid then map_option (mark_run now) (get_task db k) else get_task db k)"
  by (simp add: get_task_def find_update_task task_id_mark_run)

lemma get_task_updated:
  assumes "scheduled_tasks db' = update_task tid (mark_run now) (scheduled_tasks db)"
  shows "get_task db' k =
     (if k = tid then map_option (mark_run now) (get_task db k) else get_task db k)"
  using assms by (simp add: get_task_def find_update_task task_id_mark_run)

lemma mark_run_active:
  "task_is_active task \<Longrightarrow>
     mark_run now task = task\<lparr>last_run := Some now, task_is_active := is_recurring task\<rparr>"
  by (cases "is_recurring task") (simp_all add: mark_run_def Let_def)

lemma find_None_unknown: "k \<notin> f ` set rows \<Longrightarrow> find (\<lambda>r. f r = k) rows = None"
  by (induction rows) auto

lemma find_by_unique_key:
  assumes "distinct (map f rows)" and "r \<in> set rows"
  shows "find (\<lambda>x. f x = f r) rows = Some r"
  using assms by (induction rows) (auto simp: image_iff)

lemma find_Some_mem: "find P rows = Some r \<Longrightarrow> r \<in> set rows \<and> P r"
  by (induction rows) (auto split: if_splits)

lemma find_append_None: "find P xs = None \<Longrightarrow> find P (xs @ ys) = find P ys"
  by (induction xs) (auto split: if_splits)

lemma find_Some_exists: "\<exists>x \<in> set rows. P x \<Longrightarrow> \<exists>y. find P rows = Some y"
  by (induction rows) auto

lemma find_map_invariant:
  assumes "\<And>x. P (g x) = P x"
  shows "find P (map g rows) = map_option g (find P rows)"
  using assms by (induction rows) auto

lemma session_id_update_session:
  assumes "\<And>s. session_id (f s) = session_id s"
  shows "map session_id (update_session sid f rows) = map session_id rows"
  using assms by (induction rows) (auto simp: update_session_def)

lemma update_session_inactive:
  assumes "x \<in> set (update_session s (\<lambda>r. r\<lparr>is_active := False, updated_at := now\<rparr>) rows)"
    and "session_id x = s"
  shows "\<not> is_active x"
proof -
  from assms(1) obtain y where y: "y \<in> set rows"
    and x: "x = (if session_id y = s then y\<lparr>is_active := False, updated_at := now\<rparr> else y)"
    by (auto simp: update_session_def)
  show ?thesis
  proof (cases "session_id y = s")
    case True
    then have "x = y\<lparr>is_active := False, updated_at := now\<rparr>" using x by simp
    then show ?thesis by simp
  next
    case False
    then have "x = y" using x by simp
    with False assms(2) show ?thesis by simp
  qed
qed

lemma update_session_pointwise:
  "list_all2 (\<lambda>r r'. if session_id r = sid then r' = f r else r' = r)
     rows (update_session sid f rows)"
  by (induction rows) (simp_all add: update_session_def)

lemma list_all2_same: "list_all2 (\<lambda>r r'. if P r then Q r r' else r' = r) rows rows"
  if "\<And>r. Q r r" for rows
  using that by (induction rows) simp_all

section \<open>One firing\<close>

lemma send_message_returns:
  assumes "case slack_client env of Some (Raised e) \<Rightarrow> False | _ \<Rightarrow> True"
  shows "\<exists>posted. send_message env task = Inr posted"
  using assms by (auto simp: send_message_def split: option.splits delivery.splits)

lemma execute_recorded:
  assumes "initialized db" and "raises_nothing env"
    and "get_task db tid = Some task" and "task_is_active task"
  shows "\<exists>posted. execute_scheduled_task env db tid =
           Inr (db\<lparr>scheduled_tasks :=
                     update_task tid (mark_run (utcnow env)) (scheduled_tasks db)\<rparr>, posted)"
proof -
  from assms(2) obtain posted where "send_message env task = Inr posted"
    using send_message_returns by (auto simp: raises_nothing_def)
  with assms show ?thesis
    by (simp add: execute_scheduled_task_def execute_body_def raises_nothing_def)
qed

lemma execute_caught:
  assumes "execute_body env db tid = Inl (e, evs)"
  shows "execute_scheduled_task env db tid = Inr (db, evs @ [Log_error tid e])"
  using assms by (simp add: execute_scheduled_task_def)

lemma execute_cases:
  "(\<exists>evs. execute_scheduled_task env db tid = Inr (db, evs))
   \<or> (\<exists>task posted. get_task db tid = Some task \<and> task_is_active task \<and> initialized db
        \<and> raises_nothing env
        \<and> execute_scheduled_task env db tid =
            Inr (db\<lparr>scheduled_tasks :=
                      update_task tid (mark_run (utcnow env)) (scheduled_tasks db)\<rparr>, posted))"
  by (auto simp: execute_scheduled_task_def execute_body_def raises_nothing_def send_message_def
           split: option.splits sum.splits delivery.splits prod.splits)

lemma execute_inactive_unchanged:
  assumes "get_task db tid = Some task" and "\<not> task_is_active task"
  shows "\<exists>evs. execute_scheduled_task env db tid = Inr (db, evs)"
  using execute_cases [of env db tid] assms by auto

lemma execute_failed_unchanged:
  assumes "\<not> raises_nothing env"
  shows "\<exists>evs. execute_scheduled_task env db tid = Inr (db, evs)"
  using execute_cases [of env db tid] assms by auto

lemma execute_same_view:
  assumes "initialized db1 = initialized db2" and "get_task db1 tid = get_task db2 tid"
  shows "\<exists>d1 d2 evs. execute_scheduled_task env db1 tid = Inr (d1, evs)
           \<and> execute_scheduled_task env db2 tid = Inr (d2, evs)
           \<and> get_task d1 tid = get_task d2 tid"
  using assms
  by (auto simp: execute_scheduled_task_def execute_body_def get_task_update
           split: option.splits sum.splits)

lemma execute_frame:
  assumes "execute_scheduled_task env db a = Inr (db', evs)"
  shows "initialized db' = initialized db"
    and "conversation_sessions db' = conversation_sessions db"
    and "messages db' = messages db"
    and "b \<noteq> a \<Longrightarrow> get_task db' b = get_task db b"
  using execute_cases [of env db a] assms by (auto simp: get_task_update)

section \<open>Recording an execution\<close>

text \<open>
  C1, as stated, fails: the callback raising for the active one-time task T1 is caught,
  the error is logged, and the table is left as it was: T1 is still active and its
  \<open>last_run\<close> is still empty.
\<close>

theorem raised_callback_not_recorded:
  "execute_scheduled_task (firing_at (Some (Raised ActionError)) 200) task_db ''T1''
     = Inr (task_db, [Log_error ''T1'' ActionError])
   \<and> get_task task_db ''T1'' = Some reminder_T1
   \<and> task_is_active reminder_T1 \<and> \<not> is_recurring reminder_T1
   \<and> last_run reminder_T1 = None"
  by (simp add: execute_scheduled_task_def execute_body_def firing_at_def task_db_def
        get_task_def send_message_def reminder_T1_def recurring_T2_def)

text \<open>
  C1, amended. For a firing of an existing, active task in which the session raises
  nothing: when the callback raises, the exception is caught and logged and the database
  is unchanged; in every other case (the callback returns, reporting success or failure,
  or no client is set) the stored task gets \<open>last_run\<close> = the clock reading of the firing
  and stays active exactly when it is recurring.
\<close>

theorem execution_recorded_unless_raised:
  assumes "initialized db" and "query_fault env = None" and "commit_fault env = None"
    and "get_task db tid = Some task" and "task_is_active task"
  shows "case slack_client env of
           Some (Raised e) \<Rightarrow> execute_scheduled_task env db tid = Inr (db, [Log_error tid e])
         | _ \<Rightarrow> (\<exists>db' posted. execute_scheduled_task env db tid = Inr (db', posted)
                  \<and> get_task db' tid =
                      Some (task\<lparr>last_run := Some (utcnow env),
                                 task_is_active := is_recurring task\<rparr>))"
proof (cases "\<exists>e. slack_client env = Some (Raised e)")
  case True
  then obtain e where e: "slack_client env = Some (Raised e)" by blast
  with assms have "execute_body env db tid = Inl (e, [])"
    by (simp add: execute_body_def send_message_def)
  then show ?thesis using e by (simp add: execute_caught)
next
  case False
  then have ok: "raises_nothing env"
    using assms(2,3) by (auto simp: raises_nothing_def split: option.splits delivery.splits)
  from execute_recorded [OF assms(1) ok assms(4,5)] obtain posted where
    "execute_scheduled_task env db tid =
       Inr (db\<lparr>scheduled_tasks :=
                 update_task tid (mark_run (utcnow env)) (scheduled_tasks db)\<rparr>, posted)" ..
  moreover have "get_task (db\<lparr>scheduled_tasks :=
                 update_task tid (mark_run (utcnow env)) (scheduled_tasks db)\<rparr>) tid
      = Some (task\<lparr>last_run := Some (utcnow env), task_is_active := is_recurring task\<rparr>)"
    using assms(4,5) by (simp add: get_task_update mark_run_active)
  ultimately show ?thesis using False
    by (auto split: option.splits delivery.splits)
qed

theorem execution_recorded_unless_raised_witness:
  "(\<exists>db' posted. execute_scheduled_task (firing_at (Some Reported_failure) 200) task_db ''T1''
        = Inr (db', posted)
      \<and> get_task db' ''T1'' = Some (reminder_T1\<lparr>last_run := Some 200, task_is_active := False\<rparr>))
   \<and> execute_scheduled_task (firing_at (Some (Raised ActionError)) 200) task_db ''T2''
        = Inr (task_db, [Log_error ''T2'' ActionError])"
proof -
  have t1: "get_task task_db ''T1'' = Some reminder_T1"
    and t2: "get_task task_db ''T2'' = Some recurring_T2"
    by (simp_all add: get_task_def task_db_def reminder_T1_def recurring_T2_def)
  have i: "initialized task_db" by (simp add: task_db_def)
  have a1: "task_is_active reminder_T1" and a2: "task_is_active recurring_T2"
    by (simp_all add: reminder_T1_def recurring_T2_def)
  have r: "is_recurring reminder_T1 = False" by (simp add: reminder_T1_def)
  show ?thesis
    using execution_recorded_unless_raised
            [of task_db "firing_at (Some Reported_failure) 200" "''T1''" reminder_T1, OF i _ _ t1 a1]
          execution_recorded_unless_raised
            [of task_db "firing_at (Some (Raised ActionError)) 200" "''T2''" recurring_T2, OF i _ _ t2 a2]
    by (simp add: firing_at_def r)
qed

text \<open>
  C6, as stated, fails: the callback delivers the message of the active one-time task T1
  and then the commit raises. The exception is caught and logged, and the stored task is
  as before, still active and with an empty \<open>last_run\<close>.
\<close>

theorem commit_failure_not_recorded:
  "execute_scheduled_task (commit_fails_at 200) task_db ''T1''
     = Inr (task_db, [Posted ''C1'' (reminder_text reminder_T1) True,
                      Log_error ''T1'' StorageError])
   \<and> get_task task_db ''T1'' = Some reminder_T1
   \<and> task_is_active reminder_T1 \<and> \<not> is_recurring reminder_T1
   \<and> last_run reminder_T1 = None"
  by (simp add: execute_scheduled_task_def execute_body_def commit_fails_at_def task_db_def
        get_task_def send_message_def reminder_T1_def recurring_T2_def)

text \<open>
  C6, amended. A one-time task that is active when it is fired, in a firing where neither
  the callback nor the database session (the query, the commit) raises: afterwards the
  stored task is inactive and its \<open>last_run\<close> is the clock reading of the firing, hence
  not null. The state is terminal: whatever a later firing of the task meets, it leaves
  the database as it is.
\<close>

theorem one_time_task_terminal:
  assumes "initialized db" and "raises_nothing env"
    and "get_task db tid = Some task" and "task_is_active task" and "\<not> is_recurring task"
  shows "\<exists>db' posted task'.
           execute_scheduled_task env db tid = Inr (db', posted)
         \<and> get_task db' tid = Some task'
         \<and> \<not> task_is_active task' \<and> last_run task' = Some (utcnow env)
         \<and> (\<forall>env'. \<exists>evs. execute_scheduled_task env' db' tid = Inr (db', evs))"
proof -
  let ?db' = "db\<lparr>scheduled_tasks :=
                 update_task tid (mark_run (utcnow env)) (scheduled_tasks db)\<rparr>"
  let ?task' = "task\<lparr>last_run := Some (utcnow env), task_is_active := False\<rparr>"
  from execute_recorded [OF assms(1-4)] obtain posted where
    run: "execute_scheduled_task env db tid = Inr (?db', posted)" ..
  have stored: "get_task ?db' tid = Some ?task'"
    using assms(3-5) by (simp add: get_task_update mark_run_active)
  have "\<exists>evs. execute_scheduled_task env' ?db' tid = Inr (?db', evs)" for env'
    using execute_inactive_unchanged [OF stored] by simp
  with run stored show ?thesis by (intro exI [of _ ?db'] exI [of _ posted] exI [of _ ?task']) simp
qed

theorem one_time_task_terminal_witness:
  "\<exists>db' posted task'.
      execute_scheduled_task (firing_at (Some Delivered) 200) task_db ''T1'' = Inr (db', posted)
    \<and> get_task db' ''T1'' = Some task'
    \<and> \<not> task_is_active task' \<and> last_run task' = Some 200
    \<and> (\<forall>env'. \<exists>evs. execute_scheduled_task env' db' ''T1'' = Inr (db', evs))"
proof -
  have "initialized task_db" by (simp add: task_db_def)
  moreover have "raises_nothing (firing_at (Some Delivered) 200)"
    by (simp add: raises_nothing_def firing_at_def)
  moreover have "get_task task_db ''T1'' = Some reminder_T1"
    by (simp add: get_task_def task_db_def reminder_T1_def)
  moreover have "task_is_active reminder_T1" and "\<not> is_recurring reminder_T1"
    by (simp_all add: reminder_T1_def)
  ultimately show ?thesis
    using one_time_task_terminal [of task_db "firing_at (Some Delivered) 200" "''T1''" reminder_T1]
    by (simp add: firing_at_def)
qed

text \<open>
  C7, as stated, fails: \<open>last_run\<close> is the reading of \<open>datetime.utcnow()\<close> at each firing
  and nothing orders two readings. The recurring task T2 is fired at the reading 200 and
  then, the clock having been set back, at the reading 150; neither firing raises, and
  \<open>last_run\<close> goes from 200 to 150.
\<close>

theorem last_run_follows_clock_back:
  "execute_scheduled_task (firing_at (Some Delivered) 200) task_db ''T2''
     = Inr (task_db_run 200, [Posted ''C1'' (reminder_text recurring_T2) True])
   \<and> execute_scheduled_task (firing_at (Some Delivered) 150) (task_db_run 200) ''T2''
     = Inr (task_db_run 150, [Posted ''C1'' (reminder_text recurring_T2) True])
   \<and> get_task (task_db_run 200) ''T2'' = Some (recurring_T2\<lparr>last_run := Some 200\<rparr>)
   \<and> get_task (task_db_run 150) ''T2'' = Some (recurring_T2\<lparr>last_run := Some 150\<rparr>)
   \<and> \<not> (200 < (150::int))"
  by (simp add: execute_scheduled_task_def execute_body_def firing_at_def task_db_def
        task_db_run_def get_task_def send_message_def reminder_T1_def recurring_T2_def
        update_task_def mark_run_def reminder_text_def)

text \<open>
  C7, amended. A recurring task that is active: every firing, whatever it meets, leaves
  the task stored, recurring and active. Of two firings that raise nothing, each stores
  its own clock reading in \<open>last_run\<close>, whatever the two readings are: \<open>last_run\<close> after
  the second is the second reading and after the first the first reading, so it is later
  exactly when the clock reading is. A firing between them in which something is raised
  changes nothing.
\<close>

theorem recurring_task_stays_active:
  assumes "get_task db tid = Some task" and "is_recurring task" and "task_is_active task"
  shows "(\<exists>db' evs task'.
            execute_scheduled_task env db tid = Inr (db', evs)
          \<and> get_task db' tid = Some task' \<and> is_recurring task' \<and> task_is_active task')
       \<and> (initialized db \<and> raises_nothing env1 \<and> raises_nothing env2
          \<longrightarrow> (\<exists>db1 evs1 db2 evs2 task1 task2.
                 execute_scheduled_task env1 db tid = Inr (db1, evs1)
               \<and> (\<forall>env'. \<not> raises_nothing env'
                     \<longrightarrow> (\<exists>evs'. execute_scheduled_task env' db1 tid = Inr (db1, evs')))
               \<and> execute_scheduled_task env2 db1 tid = Inr (db2, evs2)
               \<and> get_task db1 tid = Some task1 \<and> get_task db2 tid = Some task2
               \<and> task_is_active task1 \<and> task_is_active task2
               \<and> last_run task1 = Some (utcnow env1)
               \<and> last_run task2 = Some (utcnow env2)))"
proof (intro conjI impI)
  show "\<exists>db' evs task'.
           execute_scheduled_task env db tid = Inr (db', evs)
         \<and> get_task db' tid = Some task' \<and> is_recurring task' \<and> task_is_active task'"
    using execute_cases [of env db tid] assms
    by (auto simp: get_task_update mark_run_active)
next
  assume "initialized db \<and> raises_nothing env1 \<and> raises_nothing env2"
  then have i: "initialized db" and ok1: "raises_nothing env1" and ok2: "raises_nothing env2"
    by simp_all
  let ?db1 = "db\<lparr>scheduled_tasks :=
                 update_task tid (mark_run (utcnow env1)) (scheduled_tasks db)\<rparr>"
  let ?task1 = "task\<lparr>last_run := Some (utcnow env1), task_is_active := True\<rparr>"
  let ?db2 = "?db1\<lparr>scheduled_tasks :=
                 update_task tid (mark_run (utcnow env2)) (scheduled_tasks ?db1)\<rparr>"
  let ?task2 = "?task1\<lparr>last_run := Some (utcnow env2), task_is_active := True\<rparr>"
  from execute_recorded [OF i ok1 assms(1,3)] obtain evs1 where
    run1: "execute_scheduled_task env1 db tid = Inr (?db1, evs1)" ..
  have t1: "get_task ?db1 tid = Some ?task1"
    using assms by (simp add: get_task_update mark_run_active)
  have i1: "initialized ?db1" using i by simp
  have a1: "task_is_active ?task1" by simp
  from execute_recorded [OF i1 ok2 t1 a1] obtain evs2 where
    run2: "execute_scheduled_task env2 ?db1 tid = Inr (?db2, evs2)" ..
  have "get_task ?db2 tid =
          (if tid = tid then map_option (mark_run (utcnow env2)) (get_task ?db1 tid)
           else get_task ?db1 tid)"
    by (rule get_task_updated) simp
  then have t2: "get_task ?db2 tid = Some ?task2"
    using assms(2) by (simp only: t1 option.map mark_run_active [OF a1] if_True refl simp_thms) simp
  have mid: "\<forall>env'. \<not> raises_nothing env'
               \<longrightarrow> (\<exists>evs'. execute_scheduled_task env' ?db1 tid = Inr (?db1, evs'))"
    using execute_failed_unchanged by blast
  show "\<exists>db1 evs1 db2 evs2 task1 task2.
                 execute_scheduled_task env1 db tid = Inr (db1, evs1)
               \<and> (\<forall>env'. \<not> raises_nothing env'
                     \<longrightarrow> (\<exists>evs'. execute_scheduled_task env' db1 tid = Inr (db1, evs')))
               \<and> execute_scheduled_task env2 db1 tid = Inr (db2, evs2)
               \<and> get_task db1 tid = Some task1 \<and> get_task db2 tid = Some task2
               \<and> task_is_active task1 \<and> task_is_active task2
               \<and> last_run task1 = Some (utcnow env1)
               \<and> last_run task2 = Some (utcnow env2)"
    using run1 run2 t1 t2 mid
    by (intro exI [of _ ?db1] exI [of _ evs1] exI [of _ ?db2] exI [of _ evs2]
          exI [of _ ?task1] exI [of _ ?task2]) simp
qed

theorem recurring_task_stays_active_witness:
  "(\<exists>db' evs task'.
      execute_scheduled_task (firing_at (Some (Raised ActionError)) 150) task_db ''T2''
        = Inr (db', evs)
      \<and> get_task db' ''T2'' = Some task' \<and> is_recurring task' \<and> task_is_active task')
   \<and> (\<exists>db1 evs1 db2 evs2 task1 task2.
        execute_scheduled_task (firing_at (Some Delivered) 200) task_db ''T2'' = Inr (db1, evs1)
      \<and> execute_scheduled_task (firing_at (Some Delivered) 260) db1 ''T2'' = Inr (db2, evs2)
      \<and> get_task db1 ''T2'' = Some task1 \<and> get_task db2 ''T2'' = Some task2
      \<and> task_is_active task1 \<and> task_is_active task2
      \<and> last_run task1 = Some 200 \<and> last_run task2 = Some 260)"
proof -
  have t: "get_task task_db ''T2'' = Some recurring_T2"
    by (simp add: get_task_def task_db_def reminder_T1_def recurring_T2_def)
  have r: "is_recurring recurring_T2" and a: "task_is_active recurring_T2"
    by (simp_all add: recurring_T2_def)
  have i: "initialized task_db" by (simp add: task_db_def)
  have ok: "raises_nothing (firing_at (Some Delivered) 200)"
      "raises_nothing (firing_at (Some Delivered) 260)"
    by (simp_all add: raises_nothing_def firing_at_def)
  have u: "utcnow (firing_at (Some Delivered) 200) = 200"
      "utcnow (firing_at (Some Delivered) 260) = 260"
    by (simp_all add: firing_at_def)
  from recurring_task_stays_active [OF t r a,
      of "firing_at (Some (Raised ActionError)) 150" "firing_at (Some Delivered) 200"
         "firing_at (Some Delivered) 260"] i ok
  show ?thesis unfolding u by blast
qed

section \<open>Isolation of failures\<close>

text \<open>
  C8. Whatever the callback and the session do, \<open>execute_scheduled_task\<close> returns: no
  exception reaches the caller. Hence for two different tasks \<open>a\<close> and \<open>b\<close>, firing \<open>b\<close>
  after \<open>a\<close> was fired (whatever \<open>a\<close>'s firing met) produces the same events and stores
  the same row for \<open>b\<close> as firing \<open>b\<close> with \<open>a\<close> never fired.
\<close>

theorem firing_never_raises:
  "(\<exists>db' evs. execute_scheduled_task env db tid = Inr (db', evs))
   \<and> (a \<noteq> b \<longrightarrow>
        (\<exists>db_a evs_a db_ab db_b evs_b.
            execute_scheduled_task env_a db a = Inr (db_a, evs_a)
          \<and> execute_scheduled_task env_b db_a b = Inr (db_ab, evs_b)
          \<and> execute_scheduled_task env_b db b = Inr (db_b, evs_b)
          \<and> get_task db_ab b = get_task db_b b))"
proof (intro conjI impI)
  show "\<exists>db' evs. execute_scheduled_task env db tid = Inr (db', evs)"
    by (cases "execute_body env db tid") (auto simp: execute_scheduled_task_def)
next
  assume ne: "a \<noteq> b"
  obtain db_a evs_a where run_a: "execute_scheduled_task env_a db a = Inr (db_a, evs_a)"
    by (cases "execute_body env_a db a") (auto simp: execute_scheduled_task_def)
  have "initialized db_a = initialized db" and "get_task db_a b = get_task db b"
    using execute_frame [OF run_a] ne by auto
  from execute_same_view [OF this, of env_b] run_a
  show "\<exists>db_a evs_a db_ab db_b evs_b.
            execute_scheduled_task env_a db a = Inr (db_a, evs_a)
          \<and> execute_scheduled_task env_b db_a b = Inr (db_ab, evs_b)
          \<and> execute_scheduled_task env_b db b = Inr (db_b, evs_b)
          \<and> get_task db_ab b = get_task db_b b"
    by blast
qed

theorem firing_never_raises_witness:
  "(\<exists>db' evs. execute_scheduled_task
       \<lparr>slack_client = Some Delivered, query_fault = None, commit_fault = Some StorageError,
        utcnow = 200\<rparr> task_db ''T1'' = Inr (db', evs))
   \<and> (\<exists>db_a evs_a db_ab db_b evs_b.
        execute_scheduled_task (firing_at (Some (Raised ActionError)) 200) task_db ''T1''
           = Inr (db_a, evs_a)
      \<and> execute_scheduled_task (firing_at (Some Delivered) 200) db_a ''T2'' = Inr (db_ab, evs_b)
      \<and> execute_scheduled_task (firing_at (Some Delivered) 200) task_db ''T2'' = Inr (db_b, evs_b)
      \<and> get_task db_ab ''T2'' = get_task db_b ''T2'')"
proof -
  have ne: "''T1'' \<noteq> ''T2''" by simp
  from firing_never_raises [of "\<lparr>slack_client = Some Delivered, query_fault = None,
         commit_fault = Some StorageError, utcnow = 200\<rparr>" task_db "''T1''" "''T1''" "''T2''"
         "firing_at (Some (Raised ActionError)) 200" "firing_at (Some Delivered) 200"] ne
  show ?thesis by blast
qed

section \<open>Reading the history\<close>

lemma history_rows_sorted: "sorted (map timestamp (history_rows db sid))"
  by (simp add: history_rows_def)

text \<open>
  For a limit that is not negative the rows returned are the first \<open>limit\<close> rows of the
  session's messages in ascending timestamp order: at most \<open>limit\<close> of them, ascending,
  and the oldest ones.
\<close>

lemma get_session_history_head_window:
  assumes "get_session_history db sid limit = Inr h" and "0 \<le> limit"
  shows "length h \<le> nat limit"
    and "sorted (map (\<lambda>(r, c, t). t) h)"
    and "h = take (nat limit) (map (\<lambda>m. (role m, content m, timestamp m)) (history_rows db sid))"
proof -
  from assms have h: "h = map (\<lambda>m. (role m, content m, timestamp m))
                            (take (nat limit) (history_rows db sid))"
    by (auto simp: get_session_history_def sql_limit_def split: if_splits)
  show "length h \<le> nat limit" by (simp add: h)
  have "map (\<lambda>(r, c, t). t) h = take (nat limit) (map timestamp (history_rows db sid))"
    by (simp add: h take_map comp_def)
  then show "sorted (map (\<lambda>(r, c, t). t) h)"
    using history_rows_sorted [of db sid] by simp
  show "h = take (nat limit) (map (\<lambda>m. (role m, content m, timestamp m)) (history_rows db sid))"
    by (simp add: h take_map)
qed

text \<open>
  C2. The session holds three messages, at the clock readings 1, 2 and 3. A read with
  limit 2 returns the messages of readings 1 and 2, the two oldest, in ascending order;
  the most recent message, of reading 3, is not among them. The claim asks for the
  messages of readings 2 and 3.
\<close>

theorem history_limit_keeps_oldest:
  "get_session_history chat_db ''session_U1_1.5'' 2
     = Inr [(''user'', ''first'', 1), (''assistant'', ''second'', 2)]
   \<and> get_session_history chat_db ''session_U1_1.5'' 50
     = Inr [(''user'', ''first'', 1), (''assistant'', ''second'', 2), (''user'', ''third'', 3)]"
  by (simp add: get_session_history_def chat_db_def message_rows_def history_rows_def
        sql_limit_def sqlite_integer_def)

lemma sql_limit_empty: "(sql_limit n rows = []) = (n = 0 \<or> rows = [])"
  by (cases "n < 0") (auto simp: sql_limit_def)

lemma history_rows_empty:
  "(history_rows db sid = []) = (sid \<notin> msg_session_id ` set (messages db))"
proof -
  have "(history_rows db sid = []) = (filter (\<lambda>m. msg_session_id m = sid) (messages db) = [])"
    unfolding history_rows_def by (metis length_0_conv length_sort)
  also have "\<dots> = (sid \<notin> msg_session_id ` set (messages db))"
    by (auto simp: filter_empty_conv)
  finally show ?thesis .
qed

section \<open>Unknown ids\<close>

text \<open>
  C3, as stated, fails: on a database that knows neither the session id nor the task id,
  \<open>clear_session\<close> returns and leaves the database as it is, \<open>get_session_history\<close>
  returns the empty list and \<open>execute_scheduled_task\<close> logs a warning and returns. None
  of them raises.
\<close>

theorem unknown_id_no_error:
  "clear_session chat_db ''session_U9_0.0'' 20 = Inr chat_db
   \<and> get_session_history chat_db ''session_U9_0.0'' 50 = Inr []
   \<and> execute_scheduled_task (firing_at (Some Delivered) 20) chat_db ''T404''
       = Inr (chat_db, [Log_warning ''T404''])"
  by (simp add: clear_session_def get_session_history_def execute_scheduled_task_def
        execute_body_def get_task_def chat_db_def session_S1_def message_rows_def
        history_rows_def sql_limit_def sqlite_integer_def firing_at_def reminder_T1_def)

text \<open>
  C3, amended. On an initialised database an operation naming an id that is not in the
  store completes without raising a not-found error. \<open>clear_session\<close> on a session id of
  no session row returns the database unchanged. \<open>get_session_history\<close> on a session id
  of no session row, with a limit that is an SQLite INTEGER, returns a list of messages
  stored under that id; the list is empty exactly when the limit is 0 or no message row
  carries the id. With a limit that is no SQLite INTEGER it raises \<open>OverflowError\<close>. \<open>execute_scheduled_task\<close> on a task id of no task row returns the database
  unchanged, having logged a warning (or the error of the query, if the query raised).
\<close>

theorem unknown_id_completes_silently:
  assumes "initialized db"
  shows "(sid \<notin> session_id ` set (conversation_sessions db)
            \<longrightarrow> clear_session db sid now = Inr db)
       \<and> (sid \<notin> session_id ` set (conversation_sessions db) \<and> sqlite_integer limit
            \<longrightarrow> (\<exists>h. get_session_history db sid limit = Inr h
                    \<and> set h \<subseteq> (\<lambda>m. (role m, content m, timestamp m))
                                ` {m \<in> set (messages db). msg_session_id m = sid}
                    \<and> (h = []) = (limit = 0 \<or> sid \<notin> msg_session_id ` set (messages db))))
       \<and> (\<not> sqlite_integer limit \<longrightarrow> get_session_history db sid limit = Inl OverflowError)
       \<and> (tid \<notin> task_id ` set (scheduled_tasks db)
            \<longrightarrow> execute_scheduled_task env db tid =
                  Inr (db, [case query_fault env of None \<Rightarrow> Log_warning tid
                            | Some e \<Rightarrow> Log_error tid e]))"
proof (intro conjI impI)
  assume "sid \<notin> session_id ` set (conversation_sessions db)"
  then show "clear_session db sid now = Inr db"
    using assms by (simp add: clear_session_def find_None_unknown)
next
  assume "sid \<notin> session_id ` set (conversation_sessions db) \<and> sqlite_integer limit"
  then have ok: "sqlite_integer limit" by (rule conjunct2)
  let ?h = "map (\<lambda>m. (role m, content m, timestamp m)) (sql_limit limit (history_rows db sid))"
  have run: "get_session_history db sid limit = Inr ?h"
    using assms ok by (simp add: get_session_history_def)
  have "set (sql_limit limit (history_rows db sid)) \<subseteq> set (history_rows db sid)"
    by (simp add: sql_limit_def set_take_subset)
  also have "set (history_rows db sid) = {m \<in> set (messages db). msg_session_id m = sid}"
    by (simp add: history_rows_def)
  finally have sub: "set ?h \<subseteq> (\<lambda>m. (role m, content m, timestamp m))
                                ` {m \<in> set (messages db). msg_session_id m = sid}"
    by (simp only: set_map image_mono)
  have none: "(?h = []) = (limit = 0 \<or> sid \<notin> msg_session_id ` set (messages db))"
    by (simp add: sql_limit_empty history_rows_empty)
  show "\<exists>h. get_session_history db sid limit = Inr h
          \<and> set h \<subseteq> (\<lambda>m. (role m, content m, timestamp m))
                      ` {m \<in> set (messages db). msg_session_id m = sid}
          \<and> (h = []) = (limit = 0 \<or> sid \<notin> msg_session_id ` set (messages db))"
    using run sub none by (intro exI [of _ ?h]) simp
next
  assume "\<not> sqlite_integer limit"
  then show "get_session_history db sid limit = Inl OverflowError"
    using assms by (simp add: get_session_history_def)
next
  assume "tid \<notin> task_id ` set (scheduled_tasks db)"
  then have "get_task db tid = None" by (simp add: get_task_def find_None_unknown)
  then show "execute_scheduled_task env db tid =
      Inr (db, [case query_fault env of None \<Rightarrow> Log_warning tid | Some e \<Rightarrow> Log_error tid e])"
    using assms by (simp add: execute_scheduled_task_def execute_body_def split: option.splits)
qed

theorem unknown_id_completes_silently_witness:
  "clear_session chat_db ''session_U9_0.0'' 20 = Inr chat_db
   \<and> (\<exists>h. get_session_history orphan_db ''session_U9_0.0'' 50 = Inr h \<and> h \<noteq> []
         \<and> set h \<subseteq> (\<lambda>m. (role m, content m, timestamp m))
                     ` {m \<in> set (messages orphan_db). msg_session_id m = ''session_U9_0.0''})
   \<and> get_session_history chat_db ''session_U9_0.0'' 50 = Inr []
   \<and> execute_scheduled_task (firing_at None 20) chat_db ''T404''
       = Inr (chat_db, [Log_warning ''T404''])"
proof -
  have i: "initialized chat_db" and i': "initialized orphan_db"
    by (simp_all add: chat_db_def orphan_db_def)
  have s: "''session_U9_0.0'' \<notin> session_id ` set (conversation_sessions chat_db)"
    by (simp add: chat_db_def session_S1_def)
  have s': "''session_U9_0.0'' \<notin> session_id ` set (conversation_sessions orphan_db)"
    by (simp add: orphan_db_def chat_db_def session_S1_def)
  have m: "''session_U9_0.0'' \<notin> msg_session_id ` set (messages chat_db)"
    by (simp add: chat_db_def message_rows_def)
  have m': "''session_U9_0.0'' \<in> msg_session_id ` set (messages orphan_db)"
    by (simp add: orphan_db_def)
  have t: "''T404'' \<notin> task_id ` set (scheduled_tasks chat_db)"
    by (simp add: chat_db_def reminder_T1_def)
  have l: "sqlite_integer 50" by (simp add: sqlite_integer_def)
  have q: "query_fault (firing_at None 20) = None" by (simp add: firing_at_def)
  from unknown_id_completes_silently
         [OF i, of "''session_U9_0.0''" 20 50 "''T404''" "firing_at None 20"] s m t l
  have a: "clear_session chat_db ''session_U9_0.0'' 20 = Inr chat_db"
    and b: "get_session_history chat_db ''session_U9_0.0'' 50 = Inr []"
    and c: "execute_scheduled_task (firing_at None 20) chat_db ''T404''
              = Inr (chat_db, [Log_warning ''T404''])"
    by (auto simp: q)
  from unknown_id_completes_silently [OF i', of "''session_U9_0.0''" 20 50] s' l
  have "\<exists>h. get_session_history orphan_db ''session_U9_0.0'' 50 = Inr h
         \<and> set h \<subseteq> (\<lambda>m. (role m, content m, timestamp m))
                     ` {m \<in> set (messages orphan_db). msg_session_id m = ''session_U9_0.0''}
         \<and> (h = []) = ((50::int) = 0
                \<or> ''session_U9_0.0'' \<notin> msg_session_id ` set (messages orphan_db))"
    by blast
  then obtain h where h: "get_session_history orphan_db ''session_U9_0.0'' 50 = Inr h"
      "set h \<subseteq> (\<lambda>m. (role m, content m, timestamp m))
                     ` {m \<in> set (messages orphan_db). msg_session_id m = ''session_U9_0.0''}"
      "(h = []) = ((50::int) = 0
                \<or> ''session_U9_0.0'' \<notin> msg_session_id ` set (messages orphan_db))"
    by blast
  from h(3) m' have "h \<noteq> []" by simp
  with h(1,2)
  have d: "\<exists>h. get_session_history orphan_db ''session_U9_0.0'' 50 = Inr h \<and> h \<noteq> []
         \<and> set h \<subseteq> (\<lambda>m. (role m, content m, timestamp m))
                     ` {m \<in> set (messages orphan_db). msg_session_id m = ''session_U9_0.0''}"
    by (intro exI [of _ h] conjI)
  from a d b c show ?thesis by (intro conjI)
qed

section \<open>Resolving a session\<close>

lemma resolve_returns_active:
  assumes "get_or_create_session db user channel thread stamp now = Inr (s, db')"
  shows "initialized db'"
    and "\<exists>r \<in> set (conversation_sessions db'). session_id r = s \<and> is_active r"
    and "session_ids_unique db \<Longrightarrow> session_ids_unique db'"
proof -
  show "initialized db'"
    using assms
    by (auto simp: get_or_create_session_def Let_def split: if_splits option.splits)
  show "\<exists>r \<in> set (conversation_sessions db'). session_id r = s \<and> is_active r"
  proof (cases "find (session_matches user channel thread) (conversation_sessions db)")
    case None
    with assms show ?thesis
      by (auto simp: get_or_create_session_def Let_def split: if_splits)
  next
    case (Some r)
    then have "r \<in> set (conversation_sessions db)" and "is_active r"
      using find_Some_mem [OF Some] by (auto simp: session_matches_def)
    moreover from Some assms have "s = session_id r"
      and "conversation_sessions db' =
             update_session s (\<lambda>x. x\<lparr>updated_at := now\<rparr>) (conversation_sessions db)"
      by (auto simp: get_or_create_session_def split: if_splits)
    ultimately show ?thesis
      by (auto simp: update_session_def intro!: bexI [of _ "r\<lparr>updated_at := now\<rparr>"])
  qed
  show "session_ids_unique db'" if "session_ids_unique db"
    using assms that
    by (auto simp: get_or_create_session_def Let_def session_ids_unique_def
          session_id_update_session split: if_splits option.splits)
qed

lemma clear_session_deactivates:
  assumes "session_ids_unique db" and "initialized db"
    and "r \<in> set (conversation_sessions db)" and "session_id r = s" and "is_active r"
  shows "clear_session db s now =
           Inr (db\<lparr>conversation_sessions :=
                     update_session s (\<lambda>x. x\<lparr>is_active := False, updated_at := now\<rparr>)
                       (conversation_sessions db)\<rparr>)"
proof -
  have "find (\<lambda>x. session_id x = session_id r) (conversation_sessions db) = Some r"
    using assms(1,3) by (intro find_by_unique_key) (simp_all add: session_ids_unique_def)
  then show ?thesis using assms(2,4,5) by (simp add: clear_session_def)
qed

lemma resolve_in_cleared:
  assumes "initialized db"
    and "\<And>x. x \<in> set (conversation_sessions db) \<Longrightarrow> session_id x = s \<Longrightarrow> \<not> is_active x"
    and "s \<in> session_id ` set (conversation_sessions db)"
  shows "(\<exists>s' db'. get_or_create_session db user channel thread stamp now = Inr (s', db')
            \<and> s' \<noteq> s)
       \<or> (get_or_create_session db user channel thread stamp now = Inl IntegrityError
            \<and> find (session_matches user channel thread) (conversation_sessions db) = None
            \<and> new_session_id user stamp \<in> session_id ` set (conversation_sessions db))"
proof (cases "find (session_matches user channel thread) (conversation_sessions db)")
  case (Some x)
  from find_Some_mem [OF Some] have "x \<in> set (conversation_sessions db)" and "is_active x"
    by (simp_all add: session_matches_def)
  with assms(2) have "session_id x \<noteq> s" by blast
  moreover have "get_or_create_session db user channel thread stamp now =
      Inr (session_id x, db\<lparr>conversation_sessions :=
             update_session (session_id x) (\<lambda>r. r\<lparr>updated_at := now\<rparr>)
               (conversation_sessions db)\<rparr>)"
    using Some assms(1) by (simp add: get_or_create_session_def)
  ultimately show ?thesis by blast
next
  case None
  show ?thesis
  proof (cases "new_session_id user stamp \<in> session_id ` set (conversation_sessions db)")
    case True
    then have "get_or_create_session db user channel thread stamp now = Inl IntegrityError"
      using None assms(1) by (simp add: get_or_create_session_def Let_def)
    with True None show ?thesis by blast
  next
    case False
    then have "new_session_id user stamp \<noteq> s" using assms(3) by blast
    moreover have "\<exists>db'. get_or_create_session db user channel thread stamp now =
        Inr (new_session_id user stamp, db')"
      using None assms(1) False by (simp add: get_or_create_session_def Let_def)
    ultimately show ?thesis by blast
  qed
qed

text \<open>
  C4, as stated, fails: the new session id is built from the user id and the clock's
  timestamp text alone. A first contact creates session_U1_1.5; it is cleared; the next
  resolve of the same identity, reading the same timestamp text, builds session_U1_1.5
  again, the INSERT violates the primary key and the call raises instead of returning a
  different id.
\<close>

theorem resolve_after_clear_collides:
  "get_or_create_session fresh_db ''U1'' (Some ''C1'') None ''1.5'' 10
     = Inr (''session_U1_1.5'', resolved_db)
   \<and> clear_session resolved_db ''session_U1_1.5'' 11 = Inr cleared_db
   \<and> get_or_create_session cleared_db ''U1'' (Some ''C1'') None ''1.5'' 12
     = Inl IntegrityError"
  by (simp add: get_or_create_session_def clear_session_def fresh_db_def resolved_db_def
        cleared_db_def session_matches_def truthy_def new_session_id_def update_session_def
        Let_def)

text \<open>
  C4, amended. On a table whose session ids are unique: if a resolve returned \<open>s\<close> and
  \<open>s\<close> is then cleared, the next resolve with the same identity never returns \<open>s\<close>.
  Either it returns a session id different from \<open>s\<close>, or no active session matches and
  the id it builds from the user and the timestamp text is already a session id of the
  table, in which case it raises \<open>IntegrityError\<close>.
\<close>

theorem resolve_after_clear:
  assumes "session_ids_unique db"
    and "get_or_create_session db user channel thread stamp1 now1 = Inr (s, db1)"
    and "clear_session db1 s now2 = Inr db2"
  shows "(\<exists>s' db3. get_or_create_session db2 user channel thread stamp3 now3 = Inr (s', db3)
            \<and> s' \<noteq> s)
       \<or> (get_or_create_session db2 user channel thread stamp3 now3 = Inl IntegrityError
            \<and> find (session_matches user channel thread) (conversation_sessions db2) = None
            \<and> new_session_id user stamp3 \<in> session_id ` set (conversation_sessions db2))"
proof -
  let ?rows1 = "conversation_sessions db1"
  let ?rows2 = "update_session s (\<lambda>x. x\<lparr>is_active := False, updated_at := now2\<rparr>) ?rows1"
  from resolve_returns_active [OF assms(2)] assms(1)
  obtain r where i1: "initialized db1" and u1: "session_ids_unique db1"
    and r: "r \<in> set ?rows1" "session_id r = s" "is_active r" by blast
  have "Inr db2 = clear_session db1 s now2" using assms(3) by (rule sym)
  also have "\<dots> = Inr (db1\<lparr>conversation_sessions := ?rows2\<rparr>)"
    by (rule clear_session_deactivates [OF u1 i1 r])
  finally have db2: "db2 = db1\<lparr>conversation_sessions := ?rows2\<rparr>"
    by (simp only: sum.inject)
  have rows2: "conversation_sessions db2 = ?rows2" by (simp add: db2)
  have i2: "initialized db2" using i1 by (simp add: db2)
  have inactive: "\<not> is_active x"
    if "x \<in> set (conversation_sessions db2)" and "session_id x = s" for x
    using that update_session_inactive unfolding rows2 by blast
  have "map session_id ?rows2 = map session_id ?rows1"
    by (rule session_id_update_session) simp
  then have "set (map session_id (conversation_sessions db2)) = set (map session_id ?rows1)"
    by (simp only: rows2)
  moreover have "s \<in> set (map session_id ?rows1)" using r(1,2) by force
  ultimately have known: "s \<in> session_id ` set (conversation_sessions db2)"
    by (simp only: set_map)
  show ?thesis by (rule resolve_in_cleared [OF i2 inactive known])
qed

theorem resolve_after_clear_witness:
  "(\<exists>s' db3. get_or_create_session cleared_db ''U1'' (Some ''C1'') None ''2.75'' 12 = Inr (s', db3)
        \<and> s' \<noteq> ''session_U1_1.5'')
   \<or> (get_or_create_session cleared_db ''U1'' (Some ''C1'') None ''2.75'' 12 = Inl IntegrityError
        \<and> find (session_matches ''U1'' (Some ''C1'') None) (conversation_sessions cleared_db) = None
        \<and> new_session_id ''U1'' ''2.75'' \<in> session_id ` set (conversation_sessions cleared_db))"
proof -
  have u: "session_ids_unique fresh_db" by (simp add: session_ids_unique_def fresh_db_def)
  have a: "get_or_create_session fresh_db ''U1'' (Some ''C1'') None ''1.5'' 10
             = Inr (''session_U1_1.5'', resolved_db)"
    by (simp add: get_or_create_session_def fresh_db_def resolved_db_def new_session_id_def
          Let_def)
  have b: "clear_session resolved_db ''session_U1_1.5'' 11 = Inr cleared_db"
    by (simp add: clear_session_def resolved_db_def cleared_db_def update_session_def)
  show ?thesis by (rule resolve_after_clear [OF u a b])
qed

text \<open>
  C5. If a resolve returned the session id \<open>s\<close>, the next resolve with the same identity
  triple, nothing in between, returns \<open>s\<close> again: it finds the session the first call
  found or created, and the only change it makes is to that session's \<open>updated_at\<close>.
\<close>

theorem resolve_twice_same_session:
  assumes "get_or_create_session db user channel thread stamp1 now1 = Inr (s, db1)"
  shows "get_or_create_session db1 user channel thread stamp2 now2 =
           Inr (s, db1\<lparr>conversation_sessions :=
                       update_session s (\<lambda>r. r\<lparr>updated_at := now2\<rparr>)
                         (conversation_sessions db1)\<rparr>)"
proof -
  have i: "initialized db"
    using assms by (cases "initialized db") (simp_all add: get_or_create_session_def)
  have "\<exists>r. find (session_matches user channel thread) (conversation_sessions db1) = Some r
          \<and> session_id r = s \<and> initialized db1"
  proof (cases "find (session_matches user channel thread) (conversation_sessions db)")
    case None
    let ?new = "\<lparr>session_id = new_session_id user stamp1, user_id = user,
                 channel_id = channel, thread_ts = thread, created_at = now1,
                 updated_at = now1, is_active = True\<rparr>"
    have "Inr (s, db1) =
        (if new_session_id user stamp1 \<in> set (map session_id (conversation_sessions db))
         then Inl IntegrityError
         else Inr (new_session_id user stamp1,
                db\<lparr>conversation_sessions := conversation_sessions db @ [?new]\<rparr>))"
      using assms i None by (simp add: get_or_create_session_def Let_def)
    then have s: "s = new_session_id user stamp1"
      and db1: "db1 = db\<lparr>conversation_sessions := conversation_sessions db @ [?new]\<rparr>"
      by (simp_all split: if_splits)
    have "session_matches user channel thread ?new" by (simp add: session_matches_def)
    then have "find (session_matches user channel thread) (conversation_sessions db @ [?new])
            = Some ?new"
      using None by (simp add: find_append_None)
    then show ?thesis using i by (simp add: db1 s)
  next
    case (Some r)
    let ?g = "\<lambda>x. if session_id x = session_id r then x\<lparr>updated_at := now1\<rparr> else x"
    have "Inr (s, db1) = Inr (session_id r,
             db\<lparr>conversation_sessions := map ?g (conversation_sessions db)\<rparr>)"
      using assms [symmetric] i Some
      by (simp add: get_or_create_session_def update_session_def)
    then have s: "s = session_id r"
      and db1: "db1 = db\<lparr>conversation_sessions := map ?g (conversation_sessions db)\<rparr>"
      by simp_all
    have "find (session_matches user channel thread) (map ?g (conversation_sessions db))
            = map_option ?g (find (session_matches user channel thread) (conversation_sessions db))"
      by (rule find_map_invariant) (simp add: session_matches_def)
    then have "find (session_matches user channel thread) (conversation_sessions db1)
                 = Some (?g r)"
      by (simp add: db1 Some)
    moreover have "session_id (?g r) = s" by (simp add: s)
    ultimately show ?thesis using i by (simp add: db1)
  qed
  then obtain r where "find (session_matches user channel thread) (conversation_sessions db1) = Some r"
    and "session_id r = s" and "initialized db1" by blast
  then show ?thesis by (simp add: get_or_create_session_def)
qed

theorem resolve_twice_same_session_witness:
  "get_or_create_session resolved_db ''U1'' (Some ''C1'') None ''2.75'' 12 =
     Inr (''session_U1_1.5'',
          resolved_db\<lparr>conversation_sessions :=
             update_session ''session_U1_1.5'' (\<lambda>r. r\<lparr>updated_at := 12\<rparr>)
               (conversation_sessions resolved_db)\<rparr>)"
proof -
  have "get_or_create_session fresh_db ''U1'' (Some ''C1'') None ''1.5'' 10
          = Inr (''session_U1_1.5'', resolved_db)"
    by (simp add: get_or_create_session_def fresh_db_def resolved_db_def new_session_id_def
          Let_def)
  then show ?thesis by (rule resolve_twice_same_session)
qed

section \<open>Clearing a session\<close>

lemma clear_session_cases:
  assumes "clear_session db sid now = Inr db'"
  shows "db' = db
       \<or> db' = db\<lparr>conversation_sessions :=
                   update_session sid (\<lambda>s. s\<lparr>is_active := False, updated_at := now\<rparr>)
                     (conversation_sessions db)\<rparr>"
  using assms [symmetric]
  by (simp add: clear_session_def split: if_splits option.splits)

lemma get_session_history_messages:
  assumes "messages db' = messages db" and "initialized db' = initialized db"
  shows "get_session_history db' s limit = get_session_history db s limit"
  using assms by (simp add: get_session_history_def history_rows_def)

text \<open>
  C9, as stated, fails: clearing the active session of the example database changes two
  columns of its row, \<open>is_active\<close> and \<open>updated_at\<close> (the column is declared with
  \<open>onupdate=datetime.utcnow\<close>), so the row is not the old row with only the flag set to
  false.
\<close>

theorem clear_session_refreshes_updated_at:
  "clear_session chat_db ''session_U1_1.5'' 20
     = Inr (chat_db\<lparr>conversation_sessions :=
                     [session_S1\<lparr>is_active := False, updated_at := 20\<rparr>]\<rparr>)
   \<and> session_S1\<lparr>is_active := False, updated_at := 20\<rparr> \<noteq> session_S1\<lparr>is_active := False\<rparr>"
  by (simp add: clear_session_def chat_db_def session_S1_def update_session_def)

text \<open>
  C9, amended. \<open>clear_session\<close> leaves the messages, the tasks and every session row of
  another id as they are, so every history read returns what it returned before; the
  rows of the cleared id keep every column but \<open>is_active\<close> and \<open>updated_at\<close>.
\<close>

theorem clear_session_frame:
  assumes "clear_session db sid now = Inr db'"
  shows "messages db' = messages db \<and> scheduled_tasks db' = scheduled_tasks db
       \<and> initialized db' = initialized db
       \<and> get_session_history db' s limit = get_session_history db s limit
       \<and> list_all2 (\<lambda>r r'. if session_id r = sid
                              then r' = r\<lparr>is_active := is_active r', updated_at := updated_at r'\<rparr>
                              else r' = r)
            (conversation_sessions db) (conversation_sessions db')"
proof -
  let ?f = "\<lambda>s. s\<lparr>is_active := False, updated_at := now\<rparr>"
  let ?R = "\<lambda>r r'. if session_id r = sid
                     then r' = r\<lparr>is_active := is_active r', updated_at := updated_at r'\<rparr>
                     else r' = r"
  from clear_session_cases [OF assms]
  have frame: "messages db' = messages db" "scheduled_tasks db' = scheduled_tasks db"
      "initialized db' = initialized db"
    and rows: "conversation_sessions db' = conversation_sessions db
             \<or> conversation_sessions db' = update_session sid ?f (conversation_sessions db)"
    by auto
  have hist: "get_session_history db' s limit = get_session_history db s limit"
    using frame(1,3) by (rule get_session_history_messages)
  have same: "list_all2 ?R (conversation_sessions db) (conversation_sessions db)"
    by (rule list_all2_same) simp
  have upd: "list_all2 ?R (conversation_sessions db)
               (update_session sid ?f (conversation_sessions db))"
    by (rule list_all2_mono [OF update_session_pointwise]) (simp split: if_splits)
  from rows have "list_all2 ?R (conversation_sessions db) (conversation_sessions db')"
  proof
    assume "conversation_sessions db' = conversation_sessions db"
    then show ?thesis using same by (simp only:)
  next
    assume "conversation_sessions db' = update_session sid ?f (conversation_sessions db)"
    then show ?thesis using upd by (simp only:)
  qed
  with frame hist show ?thesis by simp
qed

theorem clear_session_frame_witness:
  "messages cleared_db = messages resolved_db
   \<and> scheduled_tasks cleared_db = scheduled_tasks resolved_db
   \<and> initialized cleared_db = initialized resolved_db
   \<and> get_session_history cleared_db ''session_U1_1.5'' 50
       = get_session_history resolved_db ''session_U1_1.5'' 50
   \<and> list_all2 (\<lambda>r r'. if session_id r = ''session_U1_1.5''
                          then r' = r\<lparr>is_active := is_active r', updated_at := updated_at r'\<rparr>
                          else r' = r)
        (conversation_sessions resolved_db) (conversation_sessions cleared_db)"
proof -
  have "clear_session resolved_db ''session_U1_1.5'' 11 = Inr cleared_db"
    by (simp add: clear_session_def resolved_db_def cleared_db_def update_session_def)
  then show ?thesis by (rule clear_session_frame)
qed

section \<open>Identity fields that are not truthy\<close>

text \<open>
  C10. The lookup filters on channel and thread only when the argument is truthy. If the
  table holds an active session of the user that agrees with the call on every field the
  call passes truthy, whatever that session holds in the fields the call passes as
  \<open>None\<close> or as the empty string, then the call creates nothing: it returns the id of
  the first row of the table that is an active session of the same user and agrees with
  the call on the truthy fields, and the only change is that row's \<open>updated_at\<close>.
\<close>

theorem falsy_identity_field_not_filtered:
  assumes "initialized db" and "session \<in> set (conversation_sessions db)"
    and "user_id session = user" and "is_active session"
    and "\<not> truthy channel \<or> channel_id session = channel"
    and "\<not> truthy thread \<or> thread_ts session = thread"
  shows "\<exists>r. find (session_matches user channel thread) (conversation_sessions db) = Some r
           \<and> r \<in> set (conversation_sessions db) \<and> user_id r = user \<and> is_active r
           \<and> (\<not> truthy channel \<or> channel_id r = channel)
           \<and> (\<not> truthy thread \<or> thread_ts r = thread)
           \<and> get_or_create_session db user channel thread stamp now =
                Inr (session_id r,
                     db\<lparr>conversation_sessions :=
                          update_session (session_id r) (\<lambda>s. s\<lparr>updated_at := now\<rparr>)
                            (conversation_sessions db)\<rparr>)
           \<and> map session_id (update_session (session_id r) (\<lambda>s. s\<lparr>updated_at := now\<rparr>)
                                (conversation_sessions db))
               = map session_id (conversation_sessions db)"
proof -
  let ?rows = "conversation_sessions db"
  have m: "session_matches user channel thread session"
    unfolding session_matches_def using assms(3-6)
    by (cases "truthy channel"; cases "truthy thread"; simp)
  have "\<exists>y. find (session_matches user channel thread) ?rows = Some y"
  proof (rule find_Some_exists)
    show "\<exists>x\<in>set ?rows. session_matches user channel thread x"
      using assms(2) m by (rule bexI [rotated])
  qed
  then obtain r where r: "find (session_matches user channel thread) ?rows = Some r" ..
  have mem: "r \<in> set ?rows" using find_Some_mem [OF r] by (rule conjunct1)
  have mr: "session_matches user channel thread r" using find_Some_mem [OF r] by (rule conjunct2)
  have u: "user_id r = user" and a: "is_active r"
    using mr by (simp_all add: session_matches_def)
  have c: "\<not> truthy channel \<or> channel_id r = channel"
    using mr by (cases "truthy channel") (simp_all add: session_matches_def)
  have t: "\<not> truthy thread \<or> thread_ts r = thread"
    using mr by (cases "truthy thread") (simp_all add: session_matches_def)
  have run: "get_or_create_session db user channel thread stamp now =
                Inr (session_id r,
                     db\<lparr>conversation_sessions :=
                          update_session (session_id r) (\<lambda>s. s\<lparr>updated_at := now\<rparr>) ?rows\<rparr>)"
    using r assms(1) by (simp add: get_or_create_session_def)
  have ids: "map session_id (update_session (session_id r) (\<lambda>s. s\<lparr>updated_at := now\<rparr>) ?rows)
               = map session_id ?rows"
    by (rule session_id_update_session) simp
  from r mem u a c t run ids show ?thesis by (intro exI [of _ r] conjI)
qed

theorem falsy_identity_field_not_filtered_witness:
  "channel_id session_S1 = Some ''C1'' \<and> thread_ts session_S1 = Some ''T9''
   \<and> get_or_create_session shared_db ''U1'' None (Some '''') ''2.75'' 30 =
       Inr (session_id session_S1,
            shared_db\<lparr>conversation_sessions :=
               update_session (session_id session_S1) (\<lambda>s. s\<lparr>updated_at := 30\<rparr>)
                 (conversation_sessions shared_db)\<rparr>)"
proof (intro conjI)
  show "channel_id session_S1 = Some ''C1''" by (simp add: session_S1_def)
  show "thread_ts session_S1 = Some ''T9''" by (simp add: session_S1_def)
  have i: "initialized shared_db" by (simp add: shared_db_def chat_db_def)
  have mem: "session_S1 \<in> set (conversation_sessions shared_db)" by (simp add: shared_db_def)
  have u: "user_id session_S1 = ''U1''" by (simp add: session_S1_def)
  have a: "is_active session_S1" by (simp add: session_S1_def)
  have c: "\<not> truthy None \<or> channel_id session_S1 = None" by (simp add: truthy_def)
  have t: "\<not> truthy (Some '''') \<or> thread_ts session_S1 = Some ''''" by (simp add: truthy_def)
  from falsy_identity_field_not_filtered [OF i mem u a c t, of "''2.75''" 30]
  obtain r where r: "r \<in> set (conversation_sessions shared_db)" "user_id r = ''U1''"
    and run: "get_or_create_session shared_db ''U1'' None (Some '''') ''2.75'' 30 =
       Inr (session_id r,
            shared_db\<lparr>conversation_sessions :=
               update_session (session_id r) (\<lambda>s. s\<lparr>updated_at := 30\<rparr>)
                 (conversation_sessions shared_db)\<rparr>)"
    by blast
  from r(1) have "r = session_U7 \<or> r = session_S1" by (simp add: shared_db_def)
  moreover have "user_id session_U7 \<noteq> ''U1''" by (simp add: session_U7_def)
  ultimately have "r = session_S1" using r(2) by blast
  with run show "get_or_create_session shared_db ''U1'' None (Some '''') ''2.75'' 30 =
       Inr (session_id session_S1,
            shared_db\<lparr>conversation_sessions :=
               update_session (session_id session_S1) (\<lambda>s. s\<lparr>updated_at := 30\<rparr>)
                 (conversation_sessions shared_db)\<rparr>)"
    by (simp only:)
qed

end
